theory Spec2Isabelle
  imports Main "HOL-Library.Word"
begin

unbundle bit_operations_syntax

section \<open>The CHIP-8 interpreter core (cpu.hpp)\<close>

subsection \<open>Operation handlers and the handler tree\<close>

text \<open>
  \<^verbatim>\<open>struct operand_data\<close> of cpu.hpp: the operand fields an instruction may carry.
\<close>

record operand_data =
  m_nnn :: "16 word"
  m_x :: "8 word"
  m_y :: "8 word"
  m_kk :: "8 word"
  m_n :: "8 word"

text \<open>
  \<^verbatim>\<open>struct op_handler\<close> of cpu.hpp. \<^verbatim>\<open>m_encoding\<close> is the array of four optional
  nibbles (\<open>None\<close> is \<^verbatim>\<open>std::nullopt\<close>, a nibble of operand data). The two routines
  \<^verbatim>\<open>m_execute_op\<close> and \<^verbatim>\<open>m_dasm_op\<close> are closures defined in cpu.cpp, which is missing;
  \<open>m_name\<close> stands for them: it is the name of the static object of cpu.hpp that holds
  them, so two handlers are the same handler exactly when they are equal as records.
\<close>

record op_handler =
  m_encoding :: "8 word option list"
  m_name :: string

text \<open>
  \<^verbatim>\<open>m_op_tree\<close>: four nested \<^verbatim>\<open>std::unordered_map\<close>s keyed by
  \<^verbatim>\<open>std::optional<std::uint8_t>\<close>, one level for each nibble of the instruction.
\<close>

type_synonym op_tree =
  "8 word option \<rightharpoonup> (8 word option \<rightharpoonup> (8 word option \<rightharpoonup> (8 word option \<rightharpoonup> op_handler)))"

subsection \<open>Machine state\<close>

text \<open>
  Modelled from the spec: the enumeration \<^verbatim>\<open>cpu::screen_mode\<close> ("standard 64x32 vs
  extended 128x64"). cpu_daemon.cpp and cpu_daemon.hpp name the type; its declaration is
  not part of cpu.hpp.
\<close>

datatype screen_mode = standard | extended

text \<open>
  Modelled from the spec: the members \<open>m_dt\<close>, \<open>m_st\<close>, \<open>m_screen\<close>, \<open>m_screen_mode\<close> and
  \<open>m_keys\<close> (the timers, the framebuffer, the screen mode and the 16 key flags of the
  spec's machine state). cpu.hpp does not declare them; cpu_daemon.hpp reads them through
  \<^verbatim>\<open>get_dt\<close>, \<^verbatim>\<open>get_st\<close>, \<^verbatim>\<open>get_screen_framebuffer\<close> (an array of 128 * 64 booleans),
  \<^verbatim>\<open>get_screen_mode\<close> and writes the keys through \<^verbatim>\<open>set_key_down\<close> / \<^verbatim>\<open>set_key_up\<close>.

  The other members of \<^verbatim>\<open>class cpu\<close>, \<^verbatim>\<open>m_ram\<close>, \<^verbatim>\<open>m_gpr\<close>, \<^verbatim>\<open>m_i\<close>, \<^verbatim>\<open>m_pc\<close>, \<^verbatim>\<open>m_sp\<close>,
  \<^verbatim>\<open>m_stack\<close> and \<^verbatim>\<open>m_op_tree\<close>, are declared in cpu.hpp (arrays are lists of the
  declared size).
\<close>

record cpu =
  m_ram :: "8 word list"
  m_gpr :: "8 word list"
  m_i :: "16 word"
  m_pc :: "16 word"
  m_sp :: "8 word"
  m_stack :: "16 word list"
  m_op_tree :: op_tree
  m_dt :: "8 word"
  m_st :: "8 word"
  m_screen :: "bool list"
  m_screen_mode :: screen_mode
  m_keys :: "bool list"

definition memory_size :: nat where
  "memory_size = 0x1000"

text \<open>
  Modelled from the spec: \<^verbatim>\<open>cpu::reset\<close> is declared in cpu.hpp ("Clears RAM, registers,
  the stack, screen etc...") and defined in cpu.cpp, which is missing. The spec:
  "reset() clears memory, registers, stack, pc (to 0x200), sp (to 0), and display".
  The members the spec does not name are left as they are.
\<close>

definition reset :: "cpu \<Rightarrow> cpu" where
  "reset c = c\<lparr> m_ram := replicate memory_size 0,
               m_gpr := replicate 16 0,
               m_stack := replicate 16 0,
               m_pc := 0x200,
               m_sp := 0,
               m_screen := replicate (128 * 64) False \<rparr>"

text \<open>
  Modelled from the spec: \<^verbatim>\<open>cpu::load_rom\<close> is declared in cpu.hpp ("returns true if
  loading was successful, false otherwise") and defined in cpu.cpp, which is missing.
  The spec: "load_rom validates that len(rom) + load_address <= memory_size, writes the
  ROM bytes in place, and fails (returns failure, state unchanged) otherwise".
  The sum of a \<^verbatim>\<open>size_t\<close> and a 16-bit address does not wrap; it is a natural number here.
\<close>

definition load_rom :: "8 word list \<Rightarrow> 16 word \<Rightarrow> cpu \<Rightarrow> bool \<times> cpu" where
  "load_rom rom address c =
     (if length rom + unat address \<le> memory_size
      then (True, c\<lparr> m_ram := take (unat address) (m_ram c) @ rom
                              @ drop (unat address + length rom) (m_ram c) \<rparr>)
      else (False, c))"

text \<open>
  A concrete machine: every member zero or empty, no handler registered, then reset.
\<close>

definition blank :: cpu where
  "blank = \<lparr> m_ram = [], m_gpr = [], m_i = 0, m_pc = 0, m_sp = 0, m_stack = [],
              m_op_tree = Map.empty, m_dt = 0, m_st = 0, m_screen = [],
              m_screen_mode = standard, m_keys = replicate 16 False \<rparr>"

definition power_on :: cpu where
  "power_on = reset blank"

subsection \<open>Opcode dispatch\<close>

text \<open>
  Modelled from the spec: \<^verbatim>\<open>cpu::add_op_handler\<close> is declared in cpu.hpp ("Add an
  operation handler for an instruction into the handler tree") and defined in cpu.cpp,
  which is missing. The spec: "Registration of a handler declares its fixed/wildcard
  pattern per nibble"; cpu.hpp: \<^verbatim>\<open>m_op_tree[A][B][C][D]\<close>. Indexing a
  \<^verbatim>\<open>std::unordered_map\<close> at an absent key creates an empty entry, which is \<open>subtree\<close>.
\<close>

definition subtree :: "('k \<rightharpoonup> ('j \<rightharpoonup> 'v)) \<Rightarrow> 'k \<Rightarrow> ('j \<rightharpoonup> 'v)" where
  "subtree m k = (case m k of None \<Rightarrow> Map.empty | Some t \<Rightarrow> t)"

definition add_op_handler :: "op_handler \<Rightarrow> cpu \<Rightarrow> cpu" where
  "add_op_handler handler c =
     (let e = m_encoding handler;
          t0 = m_op_tree c;
          t1 = subtree t0 (e ! 0);
          t2 = subtree t1 (e ! 1);
          t3 = subtree t2 (e ! 2)
      in c\<lparr> m_op_tree := t0(e ! 0 \<mapsto> t1(e ! 1 \<mapsto> t2(e ! 2 \<mapsto> t3(e ! 3 \<mapsto> handler)))) \<rparr>)"

text \<open>
  Modelled from the spec: the split of an instruction word into its four nibbles,
  "[n0, n1, n2, n3] (most significant first)", and the operand structure
  "addr12 = n1n2n3, x = n1, y = n2, imm8 = n2n3, small4 = n3".
  cpu.hpp: "4bit nibbles in this case are using an 8bit type".
\<close>

definition nibbles :: "16 word \<Rightarrow> 8 word list" where
  "nibbles instruction =
     [ucast (drop_bit 12 instruction AND 0xF), ucast (drop_bit 8 instruction AND 0xF),
      ucast (drop_bit 4 instruction AND 0xF), ucast (instruction AND 0xF)]"

definition decode :: "16 word \<Rightarrow> operand_data" where
  "decode instruction =
     \<lparr> m_nnn = instruction AND 0xFFF,
       m_x = ucast (drop_bit 8 instruction AND 0xF),
       m_y = ucast (drop_bit 4 instruction AND 0xF),
       m_kk = ucast (instruction AND 0xFF),
       m_n = ucast (instruction AND 0xF) \<rparr>"

text \<open>
  Modelled from the spec: \<^verbatim>\<open>cpu::get_op_handler_for_instruction\<close> is declared in cpu.hpp
  ("Optional of operation handler if successful, std::nullopt if false") and defined in
  cpu.cpp, which is missing. The spec: "Lookup algorithm for instruction nibble n_k at
  level k: attempt the exact-value key first; if absent, attempt the wildcard key; if
  both absent, decoding fails at this level and the overall lookup returns no handler".
  \<open>find_key\<close> is one level of it.
\<close>

definition find_key :: "('a option \<rightharpoonup> 'v) \<Rightarrow> 'a \<Rightarrow> 'v option" where
  "find_key m n = (case m (Some n) of Some v \<Rightarrow> Some v | None \<Rightarrow> m None)"

definition get_op_handler_for_instruction :: "cpu \<Rightarrow> 16 word \<Rightarrow> op_handler option" where
  "get_op_handler_for_instruction c instruction =
     (let n = nibbles instruction in
      case find_key (m_op_tree c) (n ! 0) of None \<Rightarrow> None | Some t1 \<Rightarrow>
      (case find_key t1 (n ! 1) of None \<Rightarrow> None | Some t2 \<Rightarrow>
       (case find_key t2 (n ! 2) of None \<Rightarrow> None | Some t3 \<Rightarrow> find_key t3 (n ! 3))))"

text \<open>
  The static handler objects of cpu.hpp, each with the encoding its comment gives
  (\<^verbatim>\<open>static op_handler CLS; // 00E0 - CLS\<close> and so on): a hexadecimal digit is a fixed
  nibble, a letter of \<^verbatim>\<open>nnn\<close>, \<^verbatim>\<open>x\<close>, \<^verbatim>\<open>y\<close>, \<^verbatim>\<open>kk\<close>, \<^verbatim>\<open>n\<close> a nibble of operand data.
\<close>

definition CLS :: op_handler where
  "CLS = \<lparr> m_encoding = [Some 0, Some 0, Some 0xE, Some 0], m_name = ''CLS'' \<rparr>"

definition RET :: op_handler where
  "RET = \<lparr> m_encoding = [Some 0, Some 0, Some 0xE, Some 0xE], m_name = ''RET'' \<rparr>"

definition SYS :: op_handler where
  "SYS = \<lparr> m_encoding = [Some 0, None, None, None], m_name = ''SYS'' \<rparr>"

definition JP :: op_handler where
  "JP = \<lparr> m_encoding = [Some 1, None, None, None], m_name = ''JP'' \<rparr>"

definition CALL :: op_handler where
  "CALL = \<lparr> m_encoding = [Some 2, None, None, None], m_name = ''CALL'' \<rparr>"

definition SE_VX_KK :: op_handler where
  "SE_VX_KK = \<lparr> m_encoding = [Some 3, None, None, None], m_name = ''SE_VX_KK'' \<rparr>"

definition SNE_VX_KK :: op_handler where
  "SNE_VX_KK = \<lparr> m_encoding = [Some 4, None, None, None], m_name = ''SNE_VX_KK'' \<rparr>"

definition SE_VX_VY :: op_handler where
  "SE_VX_VY = \<lparr> m_encoding = [Some 5, None, None, Some 0], m_name = ''SE_VX_VY'' \<rparr>"

definition LD_VX_KK :: op_handler where
  "LD_VX_KK = \<lparr> m_encoding = [Some 6, None, None, None], m_name = ''LD_VX_KK'' \<rparr>"

definition ADD_VX_KK :: op_handler where
  "ADD_VX_KK = \<lparr> m_encoding = [Some 7, None, None, None], m_name = ''ADD_VX_KK'' \<rparr>"

definition LD_VX_VY :: op_handler where
  "LD_VX_VY = \<lparr> m_encoding = [Some 8, None, None, Some 0], m_name = ''LD_VX_VY'' \<rparr>"

definition OR_VX_Y :: op_handler where
  "OR_VX_Y = \<lparr> m_encoding = [Some 8, None, None, Some 1], m_name = ''OR_VX_Y'' \<rparr>"

definition AND_VX_VY :: op_handler where
  "AND_VX_VY = \<lparr> m_encoding = [Some 8, None, None, Some 2], m_name = ''AND_VX_VY'' \<rparr>"

definition XOR_VX_VY :: op_handler where
  "XOR_VX_VY = \<lparr> m_encoding = [Some 8, None, None, Some 3], m_name = ''XOR_VX_VY'' \<rparr>"

definition ADD_VX_VY :: op_handler where
  "ADD_VX_VY = \<lparr> m_encoding = [Some 8, None, None, Some 4], m_name = ''ADD_VX_VY'' \<rparr>"

definition SUB_VX_VY :: op_handler where
  "SUB_VX_VY = \<lparr> m_encoding = [Some 8, None, None, Some 5], m_name = ''SUB_VX_VY'' \<rparr>"

definition SHR_VX_VY :: op_handler where
  "SHR_VX_VY = \<lparr> m_encoding = [Some 8, None, None, Some 6], m_name = ''SHR_VX_VY'' \<rparr>"

definition SUBN_VX_VY :: op_handler where
  "SUBN_VX_VY = \<lparr> m_encoding = [Some 8, None, None, Some 7], m_name = ''SUBN_VX_VY'' \<rparr>"

definition SHL_VX_VY :: op_handler where
  "SHL_VX_VY = \<lparr> m_encoding = [Some 8, None, None, Some 0xE], m_name = ''SHL_VX_VY'' \<rparr>"

definition SNE_VX_VY :: op_handler where
  "SNE_VX_VY = \<lparr> m_encoding = [Some 9, None, None, Some 0], m_name = ''SNE_VX_VY'' \<rparr>"

definition LD_I_NNN :: op_handler where
  "LD_I_NNN = \<lparr> m_encoding = [Some 0xA, None, None, None], m_name = ''LD_I_NNN'' \<rparr>"

definition JP_V0_NNN :: op_handler where
  "JP_V0_NNN = \<lparr> m_encoding = [Some 0xB, None, None, None], m_name = ''JP_V0_NNN'' \<rparr>"

definition RND_VX_KK :: op_handler where
  "RND_VX_KK = \<lparr> m_encoding = [Some 0xC, None, None, None], m_name = ''RND_VX_KK'' \<rparr>"

definition DRW_VX_VY_N :: op_handler where
  "DRW_VX_VY_N = \<lparr> m_encoding = [Some 0xD, None, None, None], m_name = ''DRW_VX_VY_N'' \<rparr>"

definition SKP_VX :: op_handler where
  "SKP_VX = \<lparr> m_encoding = [Some 0xE, None, Some 9, Some 0xE], m_name = ''SKP_VX'' \<rparr>"

definition SKNP_VX :: op_handler where
  "SKNP_VX = \<lparr> m_encoding = [Some 0xE, None, Some 0xA, Some 1], m_name = ''SKNP_VX'' \<rparr>"

definition LD_VX_DT :: op_handler where
  "LD_VX_DT = \<lparr> m_encoding = [Some 0xF, None, Some 0, Some 7], m_name = ''LD_VX_DT'' \<rparr>"

definition LD_VX_K :: op_handler where
  "LD_VX_K = \<lparr> m_encoding = [Some 0xF, None, Some 0, Some 0xA], m_name = ''LD_VX_K'' \<rparr>"

definition LD_DT_VX :: op_handler where
  "LD_DT_VX = \<lparr> m_encoding = [Some 0xF, None, Some 1, Some 5], m_name = ''LD_DT_VX'' \<rparr>"

definition LD_ST_VX :: op_handler where
  "LD_ST_VX = \<lparr> m_encoding = [Some 0xF, None, Some 1, Some 8], m_name = ''LD_ST_VX'' \<rparr>"

definition ADD_I_VX :: op_handler where
  "ADD_I_VX = \<lparr> m_encoding = [Some 0xF, None, Some 1, Some 0xE], m_name = ''ADD_I_VX'' \<rparr>"

definition LD_F_VX :: op_handler where
  "LD_F_VX = \<lparr> m_encoding = [Some 0xF, None, Some 2, Some 9], m_name = ''LD_F_VX'' \<rparr>"

definition LD_B_VX :: op_handler where
  "LD_B_VX = \<lparr> m_encoding = [Some 0xF, None, Some 3, Some 3], m_name = ''LD_B_VX'' \<rparr>"

definition LD_imm_I_VX :: op_handler where
  "LD_imm_I_VX = \<lparr> m_encoding = [Some 0xF, None, Some 5, Some 5], m_name = ''LD_imm_I_VX'' \<rparr>"

definition LD_VX_imm_I :: op_handler where
  "LD_VX_imm_I = \<lparr> m_encoding = [Some 0xF, None, Some 6, Some 5], m_name = ''LD_VX_imm_I'' \<rparr>"


text \<open>
  Modelled from the spec: \<^verbatim>\<open>cpu::setup_op_handlers\<close> is declared in cpu.hpp ("Add all
  the CHIP-8 operation handlers to the operation tree") and defined in cpu.cpp, which is
  missing. The handlers are added in the order cpu.hpp declares them.
\<close>

definition op_handlers :: "op_handler list" where
  "op_handlers = [CLS, RET, SYS, JP, CALL, SE_VX_KK, SNE_VX_KK, SE_VX_VY, LD_VX_KK, ADD_VX_KK, LD_VX_VY, OR_VX_Y, AND_VX_VY, XOR_VX_VY, ADD_VX_VY, SUB_VX_VY, SHR_VX_VY, SUBN_VX_VY, SHL_VX_VY, SNE_VX_VY, LD_I_NNN, JP_V0_NNN, RND_VX_KK, DRW_VX_VY_N, SKP_VX, SKNP_VX, LD_VX_DT, LD_VX_K, LD_DT_VX, LD_ST_VX, ADD_I_VX, LD_F_VX, LD_B_VX, LD_imm_I_VX, LD_VX_imm_I]"


definition setup_op_handlers :: "cpu \<Rightarrow> cpu" where
  "setup_op_handlers c = foldl (\<lambda>c handler. add_op_handler handler c) c op_handlers"

text \<open>
  An instruction matches an encoding when it has the encoding's nibble at every fixed
  position.
\<close>

definition encoding_matches :: "8 word option list \<Rightarrow> 16 word \<Rightarrow> bool" where
  "encoding_matches e instruction =
     list_all2 (\<lambda>k n. case k of None \<Rightarrow> True | Some v \<Rightarrow> v = n) e (nibbles instruction)"

subsection \<open>Disassembly\<close>

text \<open>
  Modelled from the spec: \<^verbatim>\<open>cpu::read_u16\<close> is declared in cpu.hpp as a \<^verbatim>\<open>const\<close> member
  ("Reads a 16-bit value at the specified address") and defined in cpu.cpp, which is
  missing. An instruction word has its most significant nibbles first, so the byte at
  the address is the high byte. A read outside of the array has no value.
\<close>

definition read_u16 :: "16 word \<Rightarrow> cpu \<Rightarrow> 16 word option" where
  "read_u16 address c =
     (if unat address + 1 < length (m_ram c)
      then Some (push_bit 8 (ucast (m_ram c ! unat address))
                 OR ucast (m_ram c ! (unat address + 1)))
      else None)"

text \<open>
  Modelled from the spec: \<^verbatim>\<open>cpu::dasm_op\<close> is declared in cpu.hpp as a \<^verbatim>\<open>const\<close> member
  returning an optional string and defined in cpu.cpp, which is missing. The spec:
  "Disassembly uses the same lookup to find a handler, then invokes its disassemble
  routine with the decoded operands to produce a human-readable mnemonic string".
  The disassemble routines are closures of cpu.cpp; their type in cpu.hpp is
  \<^verbatim>\<open>std::function<void(const operand_data &, std::stringstream &)>\<close>, so a routine gets the
  operands and the stream it writes to, not the machine. They are the parameter \<open>dasm\<close>.
  The function returns its result together with the machine it leaves behind.
\<close>

definition dasm_op ::
  "(op_handler \<Rightarrow> operand_data \<Rightarrow> string) \<Rightarrow> 16 word \<Rightarrow> cpu \<Rightarrow> string option \<times> cpu" where
  "dasm_op dasm address c =
     (case read_u16 address c of
        None \<Rightarrow> (None, c)
      | Some instruction \<Rightarrow>
          (case get_op_handler_for_instruction c instruction of
             None \<Rightarrow> (None, c)
           | Some handler \<Rightarrow> (Some (dasm handler (decode instruction)), c)))"

section \<open>The execution scheduler (cpu_daemon.hpp, cpu_daemon.cpp)\<close>

subsection \<open>Messages, handlers and the state of the daemon\<close>

text \<open>\<^verbatim>\<open>enum cpu_state\<close> of cpu_daemon.hpp.\<close>

datatype cpu_state = paused | running

text \<open>
  Modelled from the spec: the enumeration \<^verbatim>\<open>cpu_message_type\<close> of cpu_message.hpp, which is
  missing. cpu_daemon.cpp names \<^verbatim>\<open>LoadROM\<close>, \<^verbatim>\<open>SetStateRunning\<close> and the count \<^verbatim>\<open>_last\<close>;
  the other kinds are those of the spec's command surface ("minimum required set: LoadRom,
  SetRunning, SetPaused, KeyDown, KeyUp, SetClockSpeed").
\<close>

datatype cpu_message_type =
  LoadROM | SetStateRunning | SetStatePaused | KeyDown | KeyUp | SetClockSpeed

text \<open>
  Modelled from the spec: \<^verbatim>\<open>struct cpu_message\<close> of cpu_message.hpp, which is missing.
  cpu_daemon.cpp reads \<^verbatim>\<open>m_type\<close> and \<^verbatim>\<open>m_data\<close> (a vector of bytes) and nothing else;
  \<open>m_address\<close> is the load address that the spec's command \<^verbatim>\<open>load_rom(bytes, address)\<close>
  carries.
\<close>

record cpu_message =
  m_type :: cpu_message_type
  m_data :: "8 word list"
  m_address :: "16 word"

text \<open>
  What a message handler works on: the members of \<^verbatim>\<open>class cpu_daemon\<close> that the handlers
  of cpu_daemon.cpp reach through the captured \<^verbatim>\<open>this\<close> (\<^verbatim>\<open>m_clock_speed\<close>, \<^verbatim>\<open>m_cpu\<close>,
  \<^verbatim>\<open>m_cpu_state\<close>) and the global stream \<^verbatim>\<open>nchip8::log\<close>, one entry for each line
  ended by \<^verbatim>\<open>std::endl\<close>. A handler is a closure
  \<^verbatim>\<open>std::function<void(const cpu_message&)>\<close>; here it is a function on these members.
  Handlers do not touch the queue, the handler table or the mutex.
\<close>

record members =
  m_clock_speed :: nat
  m_cpu :: cpu
  m_cpu_state :: cpu_state
  log :: "string list"

type_synonym cpu_message_handler = "cpu_message \<Rightarrow> members \<Rightarrow> members"

text \<open>
  The actions of the daemon that a claim speaks about, recorded in program order:
  taking and releasing \<^verbatim>\<open>m_cpu_thread_mutex\<close>, \<^verbatim>\<open>push\<close> and \<^verbatim>\<open>pop\<close> on the queue, the call
  of a handler for a message of the given type, \<^verbatim>\<open>execute_op_at_pc\<close> and
  \<^verbatim>\<open>sleep_for\<close> with its number of milliseconds.
\<close>

datatype event = Lock | Unlock | Push | Pop | Call cpu_message_type | Execute_op | Sleep_ms nat

text \<open>
  \<^verbatim>\<open>class cpu_daemon\<close>: the members above, the mutex (true while it is locked), the
  queue \<^verbatim>\<open>m_unhandled_messages\<close> (front first), the handler table \<^verbatim>\<open>m_message_handlers\<close>
  (a vector with one entry for each message type, so a function on the types) and the
  record of the actions so far.
\<close>

record cpu_daemon =
  members :: members
  m_cpu_thread_mutex :: bool
  m_unhandled_messages :: "cpu_message list"
  m_message_handlers :: "cpu_message_type \<Rightarrow> cpu_message_handler list"
  trace :: "event list"

subsection \<open>The log\<close>

text \<open>The decimal digits that \<^verbatim>\<open>operator<<\<close> prints for a \<^verbatim>\<open>size_t\<close>.\<close>

definition digit :: "nat \<Rightarrow> char" where
  "digit n = ''0123456789'' ! n"

fun decimal :: "nat \<Rightarrow> string" where
  "decimal n = (if n < 10 then [digit n] else decimal (n div 10) @ [digit (n mod 10)])"

declare decimal.simps [simp del]

definition write_log :: "string \<Rightarrow> members \<Rightarrow> members" where
  "write_log line s = s\<lparr> log := log s @ [line] \<rparr>"

subsection \<open>State of the scheduler and the two handlers of the constructor\<close>

definition get_cpu_state :: "members \<Rightarrow> cpu_state" where
  "get_cpu_state s = m_cpu_state s"

definition set_cpu_state :: "cpu_state \<Rightarrow> members \<Rightarrow> members" where
  "set_cpu_state state s = s\<lparr> m_cpu_state := state \<rparr>"

text \<open>
  The handler registered for \<^verbatim>\<open>LoadROM\<close>: it logs the size, calls \<^verbatim>\<open>m_cpu.reset()\<close> and
  then \<^verbatim>\<open>m_cpu.load_rom(msg.m_data, 0x200)\<close>, whose result it drops.
\<close>

definition LoadROM_handler :: cpu_message_handler where
  "LoadROM_handler msg s =
     (let s1 = write_log (''[cpu_daemon] received rom: '' @ decimal (length (m_data msg))
                          @ '' bytes '') s;
          s2 = s1\<lparr> m_cpu := reset (m_cpu s1) \<rparr>
      in s2\<lparr> m_cpu := snd (load_rom (m_data msg) 0x200 (m_cpu s2)) \<rparr>)"

definition SetStateRunning_handler :: cpu_message_handler where
  "SetStateRunning_handler msg s =
     set_cpu_state running (write_log ''[cpu_daemon] set cpu running'' s)"

subsection \<open>The queue and the handler table\<close>

definition observe :: "event \<Rightarrow> cpu_daemon \<Rightarrow> cpu_daemon" where
  "observe e d = d\<lparr> trace := trace d @ [e] \<rparr>"

text \<open>
  The constructor and the destructor of \<^verbatim>\<open>std::lock_guard\<close>. Every operation below
  releases the mutex before it returns, so it is free when the next one takes it.
\<close>

definition lock :: "cpu_daemon \<Rightarrow> cpu_daemon" where
  "lock d = observe Lock (d\<lparr> m_cpu_thread_mutex := True \<rparr>)"

definition unlock :: "cpu_daemon \<Rightarrow> cpu_daemon" where
  "unlock d = observe Unlock (d\<lparr> m_cpu_thread_mutex := False \<rparr>)"

definition register_message_handler ::
  "cpu_message_type \<Rightarrow> cpu_message_handler \<Rightarrow> cpu_daemon \<Rightarrow> cpu_daemon" where
  "register_message_handler type hdl d =
     d\<lparr> m_message_handlers := (m_message_handlers d)(type := m_message_handlers d type @ [hdl]) \<rparr>"

definition send_message :: "cpu_message \<Rightarrow> cpu_daemon \<Rightarrow> cpu_daemon" where
  "send_message message d =
     (let d1 = lock d;
          d2 = observe Push (d1\<lparr> m_unhandled_messages := m_unhandled_messages d1 @ [message] \<rparr>)
      in unlock d2)"

text \<open>
  The constructor, up to the start of the worker thread. The machine \<open>c\<close> is the one the
  constructor of \<^verbatim>\<open>cpu\<close> (cpu.cpp, missing) has built, \<open>lg\<close> the log so far.
\<close>

definition new_cpu_daemon :: "cpu \<Rightarrow> string list \<Rightarrow> cpu_daemon" where
  "new_cpu_daemon c lg =
     (let d0 = \<lparr> members = \<lparr> m_clock_speed = 500, m_cpu = c, m_cpu_state = paused, log = lg \<rparr>,
                 m_cpu_thread_mutex = False, m_unhandled_messages = [],
                 m_message_handlers = (\<lambda>type. []), trace = [] \<rparr>;
          d1 = register_message_handler LoadROM LoadROM_handler d0;
          d2 = register_message_handler SetStateRunning SetStateRunning_handler d1
      in d2\<lparr> members := write_log ''[cpu_daemon] starting cpu thread'' (members d2) \<rparr>)"

subsection \<open>The worker thread\<close>

text \<open>The \<^verbatim>\<open>for\<close> loop over the handlers of the type of the message.\<close>

primrec call_handlers ::
  "cpu_message_handler list \<Rightarrow> cpu_message \<Rightarrow> cpu_daemon \<Rightarrow> cpu_daemon" where
  "call_handlers [] msg d = d"
| "call_handlers (handler # rest) msg d =
     call_handlers rest msg
       (observe (Call (m_type msg)) (d\<lparr> members := handler msg (members d) \<rparr>))"

text \<open>
  The body of the inner \<^verbatim>\<open>while\<close> loop: the lock guard is the first statement of the
  block and is released at its end, after \<^verbatim>\<open>pop\<close>.
\<close>

definition handle_front :: "cpu_daemon \<Rightarrow> cpu_daemon" where
  "handle_front d =
     (let d1 = lock d;
          msg = hd (m_unhandled_messages d1);
          d2 = (if length (m_message_handlers d1 (m_type msg)) > 0
                then call_handlers (m_message_handlers d1 (m_type msg)) msg d1
                else d1);
          d3 = observe Pop (d2\<lparr> m_unhandled_messages := tl (m_unhandled_messages d2) \<rparr>)
      in unlock d3)"

text \<open>The inner loop \<^verbatim>\<open>while (!m_unhandled_messages.empty())\<close>.\<close>

function drain :: "cpu_daemon \<Rightarrow> cpu_daemon" where
  "drain d = (if m_unhandled_messages d \<noteq> [] then drain (handle_front d) else d)"
  by pat_completeness auto
termination
proof (relation "measure (\<lambda>d. length (m_unhandled_messages d))")
  show "wf (measure (\<lambda>d. length (m_unhandled_messages d)))"
    by simp
next
  fix d :: cpu_daemon
  assume nonempty: "m_unhandled_messages d \<noteq> []"
  have untouched: "m_unhandled_messages (call_handlers hs msg d') = m_unhandled_messages d'"
    for hs msg d'
    by (induction hs arbitrary: d') (simp_all add: observe_def)
  have "m_unhandled_messages (handle_front d) = tl (m_unhandled_messages d)"
    by (simp add: handle_front_def Let_def lock_def unlock_def observe_def untouched)
  with nonempty show "(handle_front d, d) \<in> measure (\<lambda>d. length (m_unhandled_messages d))"
    by simp
qed

declare drain.simps [simp del]

text \<open>
  One turn of the outer loop \<^verbatim>\<open>while (!die)\<close>. \<^verbatim>\<open>cpu::execute_op_at_pc\<close> is defined in
  cpu.cpp, which is missing: it is a parameter.
\<close>

definition cpu_thread_step :: "(cpu \<Rightarrow> cpu) \<Rightarrow> cpu_daemon \<Rightarrow> cpu_daemon" where
  "cpu_thread_step execute_op_at_pc d =
     (let d1 = drain d in
      if get_cpu_state (members d1) = running
      then (let d2 = observe Execute_op
                       (d1\<lparr> members := (members d1)
                              \<lparr> m_cpu := execute_op_at_pc (m_cpu (members d1)) \<rparr> \<rparr>)
            in observe (Sleep_ms 250) d2)
      else d1)"

text \<open>
  The messages that callers send while the worker runs: \<open>inbox k\<close> are those that arrive
  before turn \<open>k\<close> of the outer loop, each through \<^verbatim>\<open>send_message\<close>.
\<close>

definition receive :: "cpu_message list \<Rightarrow> cpu_daemon \<Rightarrow> cpu_daemon" where
  "receive msgs d = foldl (\<lambda>d message. send_message message d) d msgs"

text \<open>
  The outer loop of \<^verbatim>\<open>cpu_thread\<close>. \<open>die\<close> is the local variable; no statement of the loop
  assigns it. The loop may run forever: not returning is the value \<open>None\<close>.
\<close>

partial_function (option) cpu_thread_loop ::
  "(cpu \<Rightarrow> cpu) \<Rightarrow> (nat \<Rightarrow> cpu_message list) \<Rightarrow> nat \<Rightarrow> bool \<Rightarrow> cpu_daemon
     \<Rightarrow> cpu_daemon option" where
  "cpu_thread_loop execute_op_at_pc inbox k die d =
     (if \<not> die
      then cpu_thread_loop execute_op_at_pc inbox (Suc k) die
             (cpu_thread_step execute_op_at_pc (receive (inbox k) d))
      else Some d)"

definition cpu_thread ::
  "(cpu \<Rightarrow> cpu) \<Rightarrow> (nat \<Rightarrow> cpu_message list) \<Rightarrow> cpu_daemon \<Rightarrow> cpu_daemon option" where
  "cpu_thread execute_op_at_pc inbox d = cpu_thread_loop execute_op_at_pc inbox 0 False d"

text \<open>
  The destructor: \<^verbatim>\<open>m_cpu_thread.join()\<close> returns when \<^verbatim>\<open>cpu_thread\<close> has returned.
\<close>

definition destroy ::
  "(cpu \<Rightarrow> cpu) \<Rightarrow> (nat \<Rightarrow> cpu_message list) \<Rightarrow> cpu_daemon \<Rightarrow> unit option" where
  "destroy execute_op_at_pc inbox d =
     map_option (\<lambda>d'. ()) (cpu_thread execute_op_at_pc inbox d)"

subsection \<open>What the claims speak about\<close>

text \<open>
  The spec on handlers: "multiple handlers for the same command type all run, in
  registration order, for every queued instance of that command". \<open>run_in_order\<close> applies
  the handlers of a list to a message, first to last; \<open>run_queue\<close> does so for each message
  of a queue, front to back, with the handlers of the type of the message.
\<close>

definition run_in_order :: "cpu_message_handler list \<Rightarrow> cpu_message \<Rightarrow> members \<Rightarrow> members" where
  "run_in_order hs msg s = foldl (\<lambda>s handler. handler msg s) s hs"

definition run_queue ::
  "(cpu_message_type \<Rightarrow> cpu_message_handler list) \<Rightarrow> cpu_message list \<Rightarrow> members \<Rightarrow> members" where
  "run_queue table q s = foldl (\<lambda>s msg. run_in_order (table (m_type msg)) msg s) s q"

text \<open>The types of the messages whose handlers were called, in the order of the calls.\<close>

fun calls :: "event list \<Rightarrow> cpu_message_type list" where
  "calls [] = []"
| "calls (Call type # es) = type # calls es"
| "calls (e # es) = calls es"

text \<open>
  \<open>held_at p l es\<close>: for each action of \<open>es\<close> that satisfies \<open>p\<close>, whether the mutex is
  held when the action happens; \<open>l\<close> tells whether it is held at the start.
\<close>

fun held_at :: "(event \<Rightarrow> bool) \<Rightarrow> bool \<Rightarrow> event list \<Rightarrow> bool list" where
  "held_at p l [] = []"
| "held_at p l (e # es) =
     (if p e then [l] else [])
     @ held_at p (if e = Lock then True else if e = Unlock then False else l) es"

definition is_call :: "event \<Rightarrow> bool" where
  "is_call e = (case e of Call type \<Rightarrow> True | _ \<Rightarrow> False)"

definition is_queue_op :: "event \<Rightarrow> bool" where
  "is_queue_op e = (e = Push \<or> e = Pop)"

text \<open>The actions of one turn of the inner loop on the message \<open>msg\<close>.\<close>

definition iteration_trace ::
  "(cpu_message_type \<Rightarrow> cpu_message_handler list) \<Rightarrow> cpu_message \<Rightarrow> event list" where
  "iteration_trace table msg =
     Lock # replicate (length (table (m_type msg))) (Call (m_type msg)) @ [Pop, Unlock]"

subsection \<open>Concrete messages and daemons\<close>

definition set_running :: cpu_message where
  "set_running = \<lparr> m_type = SetStateRunning, m_data = [], m_address = 0 \<rparr>"

definition set_paused :: cpu_message where
  "set_paused = \<lparr> m_type = SetStatePaused, m_data = [], m_address = 0 \<rparr>"

definition key_down_5 :: cpu_message where
  "key_down_5 = \<lparr> m_type = KeyDown, m_data = [5], m_address = 0 \<rparr>"

definition key_up_5 :: cpu_message where
  "key_up_5 = \<lparr> m_type = KeyUp, m_data = [5], m_address = 0 \<rparr>"

definition rom_at_0x300 :: cpu_message where
  "rom_at_0x300 = \<lparr> m_type = LoadROM, m_data = [0xAB], m_address = 0x300 \<rparr>"

definition oversized_rom :: cpu_message where
  "oversized_rom = \<lparr> m_type = LoadROM, m_data = replicate 3585 0xFF, m_address = 0x200 \<rparr>"

text \<open>A daemon with two more handlers for \<^verbatim>\<open>KeyDown\<close>, each writing a line to the log.\<close>

definition two_observers :: cpu_daemon where
  "two_observers =
     register_message_handler KeyDown (\<lambda>msg. write_log ''second'')
       (register_message_handler KeyDown (\<lambda>msg. write_log ''first'')
          (new_cpu_daemon power_on []))"

section \<open>Properties of the modelled opcode dispatch\<close>

lemmas op_handler_defs = CLS_def RET_def SYS_def JP_def CALL_def SE_VX_KK_def SNE_VX_KK_def SE_VX_VY_def LD_VX_KK_def ADD_VX_KK_def LD_VX_VY_def OR_VX_Y_def AND_VX_VY_def XOR_VX_VY_def ADD_VX_VY_def SUB_VX_VY_def SHR_VX_VY_def SUBN_VX_VY_def SHL_VX_VY_def SNE_VX_VY_def LD_I_NNN_def JP_V0_NNN_def RND_VX_KK_def DRW_VX_VY_N_def SKP_VX_def SKNP_VX_def LD_VX_DT_def LD_VX_K_def LD_DT_VX_def LD_ST_VX_def ADD_I_VX_def LD_F_VX_def LD_B_VX_def LD_imm_I_VX_def LD_VX_imm_I_def

lemma op_handler_encodings:
  "m_encoding CLS = [Some 0, Some 0, Some 0xE, Some 0]"
  "m_encoding RET = [Some 0, Some 0, Some 0xE, Some 0xE]"
  "m_encoding SYS = [Some 0, None, None, None]"
  "m_encoding JP = [Some 1, None, None, None]"
  "m_encoding CALL = [Some 2, None, None, None]"
  "m_encoding SE_VX_KK = [Some 3, None, None, None]"
  "m_encoding SNE_VX_KK = [Some 4, None, None, None]"
  "m_encoding SE_VX_VY = [Some 5, None, None, Some 0]"
  "m_encoding LD_VX_KK = [Some 6, None, None, None]"
  "m_encoding ADD_VX_KK = [Some 7, None, None, None]"
  "m_encoding LD_VX_VY = [Some 8, None, None, Some 0]"
  "m_encoding OR_VX_Y = [Some 8, None, None, Some 1]"
  "m_encoding AND_VX_VY = [Some 8, None, None, Some 2]"
  "m_encoding XOR_VX_VY = [Some 8, None, None, Some 3]"
  "m_encoding ADD_VX_VY = [Some 8, None, None, Some 4]"
  "m_encoding SUB_VX_VY = [Some 8, None, None, Some 5]"
  "m_encoding SHR_VX_VY = [Some 8, None, None, Some 6]"
  "m_encoding SUBN_VX_VY = [Some 8, None, None, Some 7]"
  "m_encoding SHL_VX_VY = [Some 8, None, None, Some 0xE]"
  "m_encoding SNE_VX_VY = [Some 9, None, None, Some 0]"
  "m_encoding LD_I_NNN = [Some 0xA, None, None, None]"
  "m_encoding JP_V0_NNN = [Some 0xB, None, None, None]"
  "m_encoding RND_VX_KK = [Some 0xC, None, None, None]"
  "m_encoding DRW_VX_VY_N = [Some 0xD, None, None, None]"
  "m_encoding SKP_VX = [Some 0xE, None, Some 9, Some 0xE]"
  "m_encoding SKNP_VX = [Some 0xE, None, Some 0xA, Some 1]"
  "m_encoding LD_VX_DT = [Some 0xF, None, Some 0, Some 7]"
  "m_encoding LD_VX_K = [Some 0xF, None, Some 0, Some 0xA]"
  "m_encoding LD_DT_VX = [Some 0xF, None, Some 1, Some 5]"
  "m_encoding LD_ST_VX = [Some 0xF, None, Some 1, Some 8]"
  "m_encoding ADD_I_VX = [Some 0xF, None, Some 1, Some 0xE]"
  "m_encoding LD_F_VX = [Some 0xF, None, Some 2, Some 9]"
  "m_encoding LD_B_VX = [Some 0xF, None, Some 3, Some 3]"
  "m_encoding LD_imm_I_VX = [Some 0xF, None, Some 5, Some 5]"
  "m_encoding LD_VX_imm_I = [Some 0xF, None, Some 6, Some 5]"
  by (simp_all add: op_handler_defs)

text \<open>The tree that the registrations build on an empty tree, written out.\<close>

lemma setup_op_handlers_tree:
  "m_op_tree c = Map.empty \<Longrightarrow> m_op_tree (setup_op_handlers c) =
     [Some 0 \<mapsto> [Some 0 \<mapsto> [Some 0xE \<mapsto> [Some 0 \<mapsto> CLS,
         Some 0xE \<mapsto> RET]],
       None \<mapsto> [None \<mapsto> [None \<mapsto> SYS]]],
      Some 1 \<mapsto> [None \<mapsto> [None \<mapsto> [None \<mapsto> JP]]],
      Some 2 \<mapsto> [None \<mapsto> [None \<mapsto> [None \<mapsto> CALL]]],
      Some 3 \<mapsto> [None \<mapsto> [None \<mapsto> [None \<mapsto> SE_VX_KK]]],
      Some 4 \<mapsto> [None \<mapsto> [None \<mapsto> [None \<mapsto> SNE_VX_KK]]],
      Some 5 \<mapsto> [None \<mapsto> [None \<mapsto> [Some 0 \<mapsto> SE_VX_VY]]],
      Some 6 \<mapsto> [None \<mapsto> [None \<mapsto> [None \<mapsto> LD_VX_KK]]],
      Some 7 \<mapsto> [None \<mapsto> [None \<mapsto> [None \<mapsto> ADD_VX_KK]]],
      Some 8 \<mapsto> [None \<mapsto> [None \<mapsto> [Some 0 \<mapsto> LD_VX_VY,
         Some 1 \<mapsto> OR_VX_Y,
         Some 2 \<mapsto> AND_VX_VY,
         Some 3 \<mapsto> XOR_VX_VY,
         Some 4 \<mapsto> ADD_VX_VY,
         Some 5 \<mapsto> SUB_VX_VY,
         Some 6 \<mapsto> SHR_VX_VY,
         Some 7 \<mapsto> SUBN_VX_VY,
         Some 0xE \<mapsto> SHL_VX_VY]]],
      Some 9 \<mapsto> [None \<mapsto> [None \<mapsto> [Some 0 \<mapsto> SNE_VX_VY]]],
      Some 0xA \<mapsto> [None \<mapsto> [None \<mapsto> [None \<mapsto> LD_I_NNN]]],
      Some 0xB \<mapsto> [None \<mapsto> [None \<mapsto> [None \<mapsto> JP_V0_NNN]]],
      Some 0xC \<mapsto> [None \<mapsto> [None \<mapsto> [None \<mapsto> RND_VX_KK]]],
      Some 0xD \<mapsto> [None \<mapsto> [None \<mapsto> [None \<mapsto> DRW_VX_VY_N]]],
      Some 0xE \<mapsto> [None \<mapsto> [Some 9 \<mapsto> [Some 0xE \<mapsto> SKP_VX],
        Some 0xA \<mapsto> [Some 1 \<mapsto> SKNP_VX]]],
      Some 0xF \<mapsto> [None \<mapsto> [Some 0 \<mapsto> [Some 7 \<mapsto> LD_VX_DT,
         Some 0xA \<mapsto> LD_VX_K],
        Some 1 \<mapsto> [Some 5 \<mapsto> LD_DT_VX,
         Some 8 \<mapsto> LD_ST_VX,
         Some 0xE \<mapsto> ADD_I_VX],
        Some 2 \<mapsto> [Some 9 \<mapsto> LD_F_VX],
        Some 3 \<mapsto> [Some 3 \<mapsto> LD_B_VX],
        Some 5 \<mapsto> [Some 5 \<mapsto> LD_imm_I_VX],
        Some 6 \<mapsto> [Some 5 \<mapsto> LD_VX_imm_I]]]]"
  by (simp add: setup_op_handlers_def op_handlers_def add_op_handler_def subtree_def Let_def
        op_handler_encodings)

lemma nibbles_ex: "\<exists>n0 n1 n2 n3. nibbles instruction = [n0, n1, n2, n3]"
  by (simp add: nibbles_def)

text \<open>
  The lookup above reads the spec's algorithm as a walk that does not come back to a
  level it has left. On the tree of the handlers of cpu.hpp such a walk gives, for an
  instruction that matches a registered pattern: the handler of the pattern, for every
  pattern other than 0nnn and for 0nnn when the second nibble is not 0; when the second
  nibble is 0 the walk has taken the exact key 0 at level 1, and it gives CLS for 00E0,
  RET for 00EE and no handler for the other words 00xx. A lookup that comes back to the
  wildcard key of an earlier level, or a flat table of patterns, gives SYS for those
  words; which of them cpu.cpp has is not known.
\<close>

lemma trie_lookup_of_registered_patterns:
  assumes "m_op_tree c = Map.empty"
    and "handler \<in> set op_handlers"
    and "encoding_matches (m_encoding handler) instruction"
  shows "get_op_handler_for_instruction (setup_op_handlers c) instruction =
     (if handler = SYS \<and> nibbles instruction ! 1 = 0
      then (if nibbles instruction ! 2 = 0xE \<and> nibbles instruction ! 3 = 0 then Some CLS
            else if nibbles instruction ! 2 = 0xE \<and> nibbles instruction ! 3 = 0xE then Some RET
            else None)
      else Some handler)"
proof -
  obtain n0 n1 n2 n3 where n: "nibbles instruction = [n0, n1, n2, n3]"
    using nibbles_ex by blast
  have "handler \<in> set op_handlers" by fact
  then show ?thesis
    unfolding op_handlers_def get_op_handler_for_instruction_def
      setup_op_handlers_tree [OF assms(1)] n
    using assms(3) unfolding encoding_matches_def n
    apply (simp only: set_simps insert_iff empty_iff)
    apply (elim disjE FalseE)
    apply (simp_all add: op_handler_encodings find_key_def)
    apply (simp_all add: op_handler_defs)
    done
qed

lemma trie_lookup_0000_and_0FFF:
  "SYS \<in> set op_handlers
   \<and> encoding_matches (m_encoding SYS) 0x0000 \<and> encoding_matches (m_encoding SYS) 0x0FFF
   \<and> get_op_handler_for_instruction (setup_op_handlers blank) 0x0000 = None
   \<and> get_op_handler_for_instruction (setup_op_handlers blank) 0x0FFF = Some SYS"
proof -
  have e: "m_op_tree blank = Map.empty"
    by (simp add: blank_def)
  show ?thesis
    by (simp add: op_handlers_def encoding_matches_def op_handler_encodings nibbles_def
          get_op_handler_for_instruction_def setup_op_handlers_tree [OF e] find_key_def)
qed

section \<open>Loading a ROM\<close>

text \<open>
  Claim C2. For every ROM and load address, \<^verbatim>\<open>load_rom\<close> returns true if and only if the
  length of the ROM plus the load address fits within the 4096 bytes of memory; when it
  returns false the whole machine state is the one it was given.
\<close>

theorem load_rom_succeeds_iff_fits:
  "fst (load_rom rom address c) = (length rom + unat address \<le> 4096)
   \<and> (\<not> fst (load_rom rom address c) \<longrightarrow> snd (load_rom rom address c) = c)"
  by (simp add: load_rom_def memory_size_def)

theorem load_rom_succeeds_iff_fits_witness:
  "\<not> fst (load_rom (replicate 3585 7) 0x200 power_on)
   \<and> snd (load_rom (replicate 3585 7) 0x200 power_on) = power_on
   \<and> fst (load_rom (replicate 3584 7) 0x200 power_on)"
  using load_rom_succeeds_iff_fits [of "replicate 3585 7" "0x200" power_on]
        load_rom_succeeds_iff_fits [of "replicate 3584 7" "0x200" power_on]
  by simp

section \<open>Disassembly has no effect on the machine\<close>

text \<open>
  Claim C8. For every address (the aligned ones among them) and whatever the
  disassemble routines print, \<^verbatim>\<open>dasm_op\<close> leaves the whole machine state as it was:
  memory, registers, I, pc, sp, stack, timers, display and key state.
\<close>

theorem dasm_op_state_unchanged:
  "snd (dasm_op dasm address c) = c"
  by (simp add: dasm_op_def split: option.split)

section \<open>Properties of the scheduler\<close>

subsection \<open>One turn of the inner loop, and the whole loop\<close>

lemma call_handlers_queue [simp]:
  "m_unhandled_messages (call_handlers hs msg d) = m_unhandled_messages d"
  by (induction hs arbitrary: d) (simp_all add: observe_def)

lemma call_handlers_table [simp]:
  "m_message_handlers (call_handlers hs msg d) = m_message_handlers d"
  by (induction hs arbitrary: d) (simp_all add: observe_def)

lemma call_handlers_members:
  "members (call_handlers hs msg d) = run_in_order hs msg (members d)"
  by (induction hs arbitrary: d) (simp_all add: run_in_order_def observe_def)

lemma call_handlers_trace:
  "trace (call_handlers hs msg d) = trace d @ replicate (length hs) (Call (m_type msg))"
  by (induction hs arbitrary: d) (simp_all add: observe_def replicate_app_Cons_same)

lemma handle_front_queue [simp]:
  "m_unhandled_messages (handle_front d) = tl (m_unhandled_messages d)"
  by (simp add: handle_front_def Let_def lock_def unlock_def observe_def)

lemma handle_front_table [simp]:
  "m_message_handlers (handle_front d) = m_message_handlers d"
  by (simp add: handle_front_def Let_def lock_def unlock_def observe_def)

lemma handle_front_members:
  "members (handle_front d) =
     run_in_order (m_message_handlers d (m_type (hd (m_unhandled_messages d))))
       (hd (m_unhandled_messages d)) (members d)"
  by (simp add: handle_front_def Let_def lock_def unlock_def observe_def call_handlers_members
        run_in_order_def)

lemma handle_front_trace:
  "trace (handle_front d) =
     trace d @ iteration_trace (m_message_handlers d) (hd (m_unhandled_messages d))"
  by (simp add: handle_front_def Let_def lock_def unlock_def observe_def call_handlers_trace
        iteration_trace_def)

lemma handle_front_releases: "\<not> m_cpu_thread_mutex (handle_front d)"
  by (simp add: handle_front_def Let_def lock_def unlock_def observe_def)

lemma drain_queue [simp]: "m_unhandled_messages (drain d) = []"
  by (induction d rule: drain.induct) (subst drain.simps, simp)

lemma drain_table [simp]: "m_message_handlers (drain d) = m_message_handlers d"
  by (induction d rule: drain.induct) (subst drain.simps, simp)

lemma drain_members:
  "members (drain d) = run_queue (m_message_handlers d) (m_unhandled_messages d) (members d)"
proof (induction d rule: drain.induct)
  case (1 d)
  show ?case
  proof (cases "m_unhandled_messages d")
    case Nil
    then show ?thesis
      by (subst drain.simps) (simp add: run_queue_def)
  next
    case (Cons msg rest)
    then have "members (drain d) = members (drain (handle_front d))"
      by (subst drain.simps) simp
    also have "\<dots> = run_queue (m_message_handlers d) rest (members (handle_front d))"
      using 1 Cons by simp
    finally show ?thesis
      using Cons by (simp add: run_queue_def handle_front_members)
  qed
qed

lemma drain_trace:
  "trace (drain d) =
     trace d @ concat (map (iteration_trace (m_message_handlers d)) (m_unhandled_messages d))"
proof (induction d rule: drain.induct)
  case (1 d)
  show ?case
  proof (cases "m_unhandled_messages d")
    case Nil
    then show ?thesis
      by (subst drain.simps) simp
  next
    case (Cons msg rest)
    then have "trace (drain d) = trace (drain (handle_front d))"
      by (subst drain.simps) simp
    also have "\<dots> = trace (handle_front d)
                      @ concat (map (iteration_trace (m_message_handlers d)) rest)"
      using 1 Cons by simp
    finally show ?thesis
      using Cons by (simp add: handle_front_trace)
  qed
qed

lemma drain_mutex:
  "m_cpu_thread_mutex (drain d) = (m_unhandled_messages d = [] \<and> m_cpu_thread_mutex d)"
proof (induction d rule: drain.induct)
  case (1 d)
  show ?case
  proof (cases "m_unhandled_messages d")
    case Nil
    then show ?thesis
      by (subst drain.simps) simp
  next
    case (Cons msg rest)
    then have "m_cpu_thread_mutex (drain d) = m_cpu_thread_mutex (drain (handle_front d))"
      by (subst drain.simps) simp
    also have "\<dots> = (rest = [] \<and> m_cpu_thread_mutex (handle_front d))"
      using 1 Cons by simp
    finally show ?thesis
      using Cons by (simp add: handle_front_releases)
  qed
qed

lemma send_message_queue [simp]:
  "m_unhandled_messages (send_message message d) = m_unhandled_messages d @ [message]"
  by (simp add: send_message_def Let_def lock_def unlock_def observe_def)

lemma send_message_table [simp]:
  "m_message_handlers (send_message message d) = m_message_handlers d"
  by (simp add: send_message_def Let_def lock_def unlock_def observe_def)

lemma send_message_members [simp]:
  "members (send_message message d) = members d"
  by (simp add: send_message_def Let_def lock_def unlock_def observe_def)

lemma send_message_trace:
  "trace (send_message message d) = trace d @ [Lock, Push, Unlock]"
  by (simp add: send_message_def Let_def lock_def unlock_def observe_def)

lemma send_message_releases: "\<not> m_cpu_thread_mutex (send_message message d)"
  by (simp add: send_message_def Let_def lock_def unlock_def observe_def)

text \<open>A message sent to a daemon with an empty queue, then the inner loop.\<close>

lemma process_one:
  "m_unhandled_messages d = [] \<Longrightarrow>
   members (drain (send_message msg d)) =
     run_in_order (m_message_handlers d (m_type msg)) msg (members d)"
  by (simp add: drain_members run_queue_def)

subsection \<open>The daemon that the constructor builds\<close>

lemma message_types [simp]:
  "m_type set_running = SetStateRunning" "m_type set_paused = SetStatePaused"
  "m_type key_down_5 = KeyDown" "m_type key_up_5 = KeyUp"
  by (simp_all add: set_running_def set_paused_def key_down_5_def key_up_5_def)

lemma new_cpu_daemon_table:
  "m_message_handlers (new_cpu_daemon c lg) type =
     (if type = LoadROM then [LoadROM_handler]
      else if type = SetStateRunning then [SetStateRunning_handler] else [])"
  by (simp add: new_cpu_daemon_def Let_def register_message_handler_def)

lemma new_cpu_daemon_simps [simp]:
  "members (new_cpu_daemon c lg) =
     \<lparr> m_clock_speed = 500, m_cpu = c, m_cpu_state = paused,
       log = lg @ [''[cpu_daemon] starting cpu thread''] \<rparr>"
  "m_unhandled_messages (new_cpu_daemon c lg) = []"
  "trace (new_cpu_daemon c lg) = []"
  "\<not> m_cpu_thread_mutex (new_cpu_daemon c lg)"
  "m_message_handlers (new_cpu_daemon c lg) LoadROM = [LoadROM_handler]"
  "m_message_handlers (new_cpu_daemon c lg) SetStateRunning = [SetStateRunning_handler]"
  "m_message_handlers (new_cpu_daemon c lg) SetStatePaused = []"
  "m_message_handlers (new_cpu_daemon c lg) KeyDown = []"
  "m_message_handlers (new_cpu_daemon c lg) KeyUp = []"
  "m_message_handlers (new_cpu_daemon c lg) SetClockSpeed = []"
  by (simp_all add: new_cpu_daemon_def Let_def register_message_handler_def write_log_def)

lemma running_daemon:
  "members (drain (send_message set_running (new_cpu_daemon c lg))) =
     \<lparr> m_clock_speed = 500, m_cpu = c, m_cpu_state = running,
       log = lg @ [''[cpu_daemon] starting cpu thread'', ''[cpu_daemon] set cpu running''] \<rparr>"
  by (simp add: process_one run_in_order_def SetStateRunning_handler_def
        set_cpu_state_def write_log_def)

lemma ram_after_reset_and_load:
  "length rom + unat address \<le> memory_size \<Longrightarrow>
   m_ram (snd (load_rom rom address (reset c))) =
     replicate (unat address) 0 @ rom @ replicate (memory_size - (unat address + length rom)) 0"
  by (simp add: load_rom_def reset_def min_def)

subsection \<open>The clock speed and the delay of the worker\<close>

text \<open>
  Claim C3, the code at a running daemon. When the state is running after the inner loop,
  one turn of the worker loop calls \<^verbatim>\<open>execute_op_at_pc\<close> once and then sleeps; the sleep is
  250 milliseconds whatever \<^verbatim>\<open>m_clock_speed\<close> holds. The claim asks for a delay derived
  from that member (2 ms at its default 500).
\<close>

theorem cpu_thread_step_sleeps_250ms:
  "get_cpu_state (members (drain d)) = running \<longrightarrow>
     trace (cpu_thread_step execute_op_at_pc d) = trace (drain d) @ [Execute_op, Sleep_ms 250]
     \<and> m_cpu (members (cpu_thread_step execute_op_at_pc d))
       = execute_op_at_pc (m_cpu (members (drain d)))"
  by (simp add: cpu_thread_step_def Let_def observe_def)

theorem cpu_thread_step_sleeps_250ms_witness:
  "m_clock_speed (members (drain (send_message set_running (new_cpu_daemon power_on [])))) = 500
   \<and> get_cpu_state (members (drain (send_message set_running (new_cpu_daemon power_on []))))
       = running
   \<and> trace (cpu_thread_step (\<lambda>c. c) (send_message set_running (new_cpu_daemon power_on [])))
       = [Lock, Push, Unlock, Lock, Call SetStateRunning, Pop, Unlock, Execute_op, Sleep_ms 250]
   \<and> (250::nat) \<noteq> 1000 div 500"
  using cpu_thread_step_sleeps_250ms
          [of "send_message set_running (new_cpu_daemon power_on [])" "\<lambda>c. c"]
  by (simp add: running_daemon get_cpu_state_def cpu_thread_step_def Let_def observe_def
        drain_trace send_message_trace iteration_trace_def)

subsection \<open>The mutex\<close>

lemma held_at_calls:
  "held_at p True (replicate n (Call type) @ es) =
     (if p (Call type) then replicate n True else []) @ held_at p True es"
  by (induction n) simp_all

lemma held_at_iteration:
  "held_at p l (iteration_trace table msg @ es) =
     (if p Lock then [l] else [])
     @ (if p (Call (m_type msg)) then replicate (length (table (m_type msg))) True else [])
     @ (if p Pop then [True] else []) @ (if p Unlock then [True] else [])
     @ held_at p False es"
  by (simp add: iteration_trace_def held_at_calls)

lemma held_at_is_call_drain:
  "held_at is_call l (concat (map (iteration_trace table) q)) =
     concat (map (\<lambda>msg. replicate (length (table (m_type msg))) True) q)"
  by (induction q arbitrary: l) (simp_all add: held_at_iteration is_call_def)

lemma held_at_is_queue_op_drain:
  "held_at is_queue_op l (concat (map (iteration_trace table) q)) = replicate (length q) True"
  by (induction q arbitrary: l) (simp_all add: held_at_iteration is_queue_op_def)

text \<open>
  Claim C4, as amended. The mutex is held at every push and at every pop of the queue. In
  \<^verbatim>\<open>send_message\<close> it is taken, held for the push alone and released. In the inner loop of
  the worker, each turn takes the mutex first, then calls every handler of the type of the
  front message, then pops the message, and releases the mutex last: the mutex is held at
  every call of a handler, and it is free when the loop has handled a message.
\<close>

theorem lock_held_across_handlers:
  "drop (length (trace d)) (trace (send_message message d)) = [Lock, Push, Unlock]
   \<and> \<not> m_cpu_thread_mutex (send_message message d)
   \<and> drop (length (trace d)) (trace (drain d))
       = concat (map (\<lambda>msg. Lock # replicate (length (m_message_handlers d (m_type msg)))
                                      (Call (m_type msg)) @ [Pop, Unlock])
                  (m_unhandled_messages d))
   \<and> m_cpu_thread_mutex (drain d) = (m_unhandled_messages d = [] \<and> m_cpu_thread_mutex d)
   \<and> held_at is_queue_op False (drop (length (trace d)) (trace (drain d)))
       = replicate (length (m_unhandled_messages d)) True
   \<and> held_at is_call False (drop (length (trace d)) (trace (drain d)))
       = concat (map (\<lambda>msg. replicate (length (m_message_handlers d (m_type msg))) True)
                  (m_unhandled_messages d))"
proof -
  have turn: "iteration_trace (m_message_handlers d)
      = (\<lambda>msg. Lock # replicate (length (m_message_handlers d (m_type msg)))
                          (Call (m_type msg)) @ [Pop, Unlock])"
    by (rule ext) (simp add: iteration_trace_def)
  have new_part: "drop (length (trace d)) (trace (drain d))
      = concat (map (iteration_trace (m_message_handlers d)) (m_unhandled_messages d))"
    by (simp add: drain_trace)
  have sent: "drop (length (trace d)) (trace (send_message message d)) = [Lock, Push, Unlock]"
    by (simp add: send_message_trace)
  have turns: "drop (length (trace d)) (trace (drain d))
      = concat (map (\<lambda>msg. Lock # replicate (length (m_message_handlers d (m_type msg)))
                                     (Call (m_type msg)) @ [Pop, Unlock])
                 (m_unhandled_messages d))"
    using new_part by (simp only: turn)
  have at_queue_ops: "held_at is_queue_op False (drop (length (trace d)) (trace (drain d)))
      = replicate (length (m_unhandled_messages d)) True"
    by (simp only: new_part held_at_is_queue_op_drain)
  have at_calls: "held_at is_call False (drop (length (trace d)) (trace (drain d)))
      = concat (map (\<lambda>msg. replicate (length (m_message_handlers d (m_type msg))) True)
                 (m_unhandled_messages d))"
    by (simp only: new_part held_at_is_call_drain)
  show ?thesis
    using sent send_message_releases [of message d] turns drain_mutex [of d]
      at_queue_ops at_calls
    by (intro conjI)
qed

text \<open>
  The claim as it is written fails: the handler of a \<^verbatim>\<open>SetStateRunning\<close> message is called
  between \<open>Lock\<close> and \<open>Unlock\<close>.
\<close>

theorem lock_not_held_during_handlers_counterexample:
  "trace (drain (send_message set_running (new_cpu_daemon power_on [])))
     = [Lock, Push, Unlock, Lock, Call SetStateRunning, Pop, Unlock]
   \<and> held_at is_call False (trace (drain (send_message set_running (new_cpu_daemon power_on []))))
     = [True]"
  by (simp add: drain_trace send_message_trace iteration_trace_def is_call_def)

subsection \<open>The LoadROM command\<close>

text \<open>
  Claim C5, as amended. For every \<^verbatim>\<open>LoadROM\<close> message, whatever load address comes with
  it, the handler of the constructor first resets the machine and then loads the bytes of
  the message at the fixed address 0x200.
\<close>

theorem LoadROM_loads_at_0x200:
  "m_type msg = LoadROM \<and> m_message_handlers d LoadROM = [LoadROM_handler]
     \<and> m_unhandled_messages d = [] \<longrightarrow>
   m_cpu (members (drain (send_message msg d)))
     = snd (load_rom (m_data msg) 0x200 (reset (m_cpu (members d))))"
  by (simp add: process_one run_in_order_def LoadROM_handler_def Let_def write_log_def)

theorem LoadROM_loads_at_0x200_witness:
  "m_type rom_at_0x300 = LoadROM
   \<and> m_message_handlers (new_cpu_daemon power_on []) LoadROM = [LoadROM_handler]
   \<and> m_unhandled_messages (new_cpu_daemon power_on []) = []
   \<and> m_ram (m_cpu (members (drain (send_message rom_at_0x300 (new_cpu_daemon power_on [])))))
       ! 0x200 = 0xAB
   \<and> m_pc (m_cpu (members (drain (send_message rom_at_0x300 (new_cpu_daemon power_on [])))))
       = 0x200"
  using LoadROM_loads_at_0x200 [of rom_at_0x300 "new_cpu_daemon power_on []"]
  by (simp add: rom_at_0x300_def ram_after_reset_and_load memory_size_def nth_append)
     (simp add: load_rom_def reset_def memory_size_def)

text \<open>
  The claim as it is written fails: a message that carries the address 0x300 does not
  leave the machine that a load at 0x300 leaves.
\<close>

theorem LoadROM_ignores_address_counterexample:
  "m_cpu (members (drain (send_message rom_at_0x300 (new_cpu_daemon power_on []))))
     \<noteq> snd (load_rom (m_data rom_at_0x300) (m_address rom_at_0x300)
              (reset (m_cpu (members (new_cpu_daemon power_on [])))))"
proof
  assume "m_cpu (members (drain (send_message rom_at_0x300 (new_cpu_daemon power_on []))))
     = snd (load_rom (m_data rom_at_0x300) (m_address rom_at_0x300)
              (reset (m_cpu (members (new_cpu_daemon power_on [])))))"
  then have "m_ram (snd (load_rom [0xAB] 0x200 (reset power_on))) ! 0x200
           = m_ram (snd (load_rom [0xAB] 0x300 (reset power_on))) ! 0x200"
    by (simp add: process_one run_in_order_def LoadROM_handler_def Let_def write_log_def
          rom_at_0x300_def)
  then show False
    by (simp add: ram_after_reset_and_load memory_size_def nth_append)
qed

text \<open>
  Claim C10. The handler of \<^verbatim>\<open>LoadROM\<close> drops the result of \<^verbatim>\<open>load_rom\<close>. For every
  \<^verbatim>\<open>LoadROM\<close> message the only line it logs is the size of the ROM, and the state and the
  clock speed of the scheduler stay as they were, whether the load succeeds or not; when
  the ROM does not fit at 0x200, \<^verbatim>\<open>load_rom\<close> returns false and the machine is left as the
  reset made it.
\<close>

theorem failed_LoadROM_is_silent:
  "m_type msg = LoadROM \<and> m_message_handlers d LoadROM = [LoadROM_handler]
     \<and> m_unhandled_messages d = [] \<longrightarrow>
     log (members (drain (send_message msg d)))
       = log (members d)
         @ [''[cpu_daemon] received rom: '' @ decimal (length (m_data msg)) @ '' bytes '']
     \<and> m_cpu_state (members (drain (send_message msg d))) = m_cpu_state (members d)
     \<and> m_clock_speed (members (drain (send_message msg d))) = m_clock_speed (members d)
     \<and> (memory_size < length (m_data msg) + 0x200 \<longrightarrow>
          \<not> fst (load_rom (m_data msg) 0x200 (reset (m_cpu (members d))))
          \<and> m_cpu (members (drain (send_message msg d))) = reset (m_cpu (members d)))"
  by (simp add: process_one run_in_order_def LoadROM_handler_def Let_def write_log_def
        load_rom_def)

theorem failed_LoadROM_is_silent_witness:
  "m_type oversized_rom = LoadROM
   \<and> m_message_handlers (new_cpu_daemon power_on []) LoadROM = [LoadROM_handler]
   \<and> m_unhandled_messages (new_cpu_daemon power_on []) = []
   \<and> memory_size < length (m_data oversized_rom) + 0x200
   \<and> log (members (drain (send_message oversized_rom (new_cpu_daemon power_on []))))
       = [''[cpu_daemon] starting cpu thread'', ''[cpu_daemon] received rom: 3585 bytes '']
   \<and> m_cpu (members (drain (send_message oversized_rom (new_cpu_daemon power_on [])))) = power_on"
  using failed_LoadROM_is_silent [of oversized_rom "new_cpu_daemon power_on []"]
  by (simp add: oversized_rom_def memory_size_def decimal.simps digit_def power_on_def reset_def)

subsection \<open>The commands that the scheduler handles\<close>

text \<open>
  Claim C6, as amended. The constructor registers a handler for \<^verbatim>\<open>LoadROM\<close> and one for
  \<^verbatim>\<open>SetStateRunning\<close>, and for no other kind. On a daemon with that handler table, a queued
  \<^verbatim>\<open>LoadROM\<close> message resets the machine and loads the ROM at 0x200, a queued
  \<^verbatim>\<open>SetStateRunning\<close> message sets the state to running, and a queued message of any other
  kind is taken off the queue and changes nothing else.
\<close>

theorem constructor_registers_two_handlers:
  "m_message_handlers d = m_message_handlers (new_cpu_daemon c lg)
     \<and> m_unhandled_messages d = [] \<longrightarrow>
     (m_type msg = LoadROM \<longrightarrow>
        m_cpu (members (drain (send_message msg d)))
          = snd (load_rom (m_data msg) 0x200 (reset (m_cpu (members d)))))
     \<and> (m_type msg = SetStateRunning \<longrightarrow>
        get_cpu_state (members (drain (send_message msg d))) = running)
     \<and> (m_type msg \<noteq> LoadROM \<and> m_type msg \<noteq> SetStateRunning \<longrightarrow>
        members (drain (send_message msg d)) = members d
        \<and> m_unhandled_messages (drain (send_message msg d)) = [])"
  by (simp add: process_one new_cpu_daemon_table run_in_order_def LoadROM_handler_def Let_def
        SetStateRunning_handler_def set_cpu_state_def get_cpu_state_def write_log_def)

theorem constructor_registers_two_handlers_witness:
  "get_cpu_state (members (drain (send_message set_running (new_cpu_daemon power_on []))))
     = running
   \<and> members (drain (send_message key_down_5 (new_cpu_daemon power_on [])))
       = members (new_cpu_daemon power_on [])
   \<and> m_unhandled_messages (drain (send_message key_down_5 (new_cpu_daemon power_on []))) = []"
  using constructor_registers_two_handlers
          [of "new_cpu_daemon power_on []" power_on "[]" set_running]
        constructor_registers_two_handlers
          [of "new_cpu_daemon power_on []" power_on "[]" key_down_5]
  by simp

text \<open>
  The claim as it is written fails: a running daemon stays running after a
  \<^verbatim>\<open>SetStatePaused\<close> message, and a \<^verbatim>\<open>KeyDown\<close> message for key 5 leaves every key up.
\<close>

theorem SetStatePaused_has_no_handler_counterexample:
  "get_cpu_state (members (drain (send_message set_running (new_cpu_daemon power_on []))))
     = running
   \<and> get_cpu_state (members (drain (send_message set_paused
        (drain (send_message set_running (new_cpu_daemon power_on [])))))) = running
   \<and> m_keys (m_cpu (members (drain (send_message key_down_5 (new_cpu_daemon power_on [])))))
       = replicate 16 False"
  by (simp add: process_one run_in_order_def running_daemon get_cpu_state_def
        power_on_def reset_def blank_def)

subsection \<open>Handlers run in the order of their registration\<close>

lemma calls_append: "calls (xs @ ys) = calls xs @ calls ys"
  by (induction xs rule: calls.induct) simp_all

lemma calls_replicate: "calls (replicate n (Call type)) = replicate n type"
  by (induction n) simp_all

lemma calls_iteration:
  "calls (iteration_trace table msg) = replicate (length (table (m_type msg))) (m_type msg)"
  by (simp add: iteration_trace_def calls_append calls_replicate)

lemma calls_drain:
  "calls (concat (map (iteration_trace table) q)) =
     concat (map (\<lambda>msg. replicate (length (table (m_type msg))) (m_type msg)) q)"
  by (induction q) (simp_all add: calls_append calls_iteration)

text \<open>
  Claim C7. \<^verbatim>\<open>register_message_handler\<close> puts a handler at the end of the list of its
  type and leaves the other types alone. The inner loop of the worker leaves the members
  as \<open>run_queue\<close> does: for each queued message, front to back, every handler of the type
  of the message, in the order of registration. It calls, for each queued message, as many
  handlers as the type has, so each handler once for each message. It empties the queue.
  A message whose type has no handler leaves the members as they were.
\<close>

theorem handlers_run_in_registration_order:
  "m_message_handlers (register_message_handler type hdl d) type
     = m_message_handlers d type @ [hdl]
   \<and> (type' \<noteq> type \<longrightarrow>
        m_message_handlers (register_message_handler type hdl d) type'
          = m_message_handlers d type')
   \<and> members (drain d) = run_queue (m_message_handlers d) (m_unhandled_messages d) (members d)
   \<and> calls (trace (drain d))
       = calls (trace d)
         @ concat (map (\<lambda>msg. replicate (length (m_message_handlers d (m_type msg))) (m_type msg))
                    (m_unhandled_messages d))
   \<and> m_unhandled_messages (drain d) = []
   \<and> (m_unhandled_messages d \<noteq> []
        \<and> m_message_handlers d (m_type (hd (m_unhandled_messages d))) = [] \<longrightarrow>
        members (handle_front d) = members d)"
  by (simp add: register_message_handler_def drain_members drain_trace calls_drain calls_append
        handle_front_members run_in_order_def)

theorem handlers_run_in_registration_order_witness:
  "log (members (drain (send_message key_down_5 (send_message key_up_5
          (send_message key_down_5 two_observers)))))
     = [''[cpu_daemon] starting cpu thread'', ''first'', ''second'', ''first'', ''second'']
   \<and> calls (trace (drain (send_message key_down_5 (send_message key_up_5
          (send_message key_down_5 two_observers)))))
     = [KeyDown, KeyDown, KeyDown, KeyDown]
   \<and> members (handle_front (send_message key_up_5 two_observers)) = members two_observers"
proof -
  have t: "m_message_handlers two_observers KeyDown
             = [\<lambda>msg. write_log ''first'', \<lambda>msg. write_log ''second'']"
      "m_message_handlers two_observers KeyUp = []"
      "trace two_observers = []" "m_unhandled_messages two_observers = []"
      "log (members two_observers) = [''[cpu_daemon] starting cpu thread'']"
    by (simp_all add: two_observers_def register_message_handler_def)
  show ?thesis
    using handlers_run_in_registration_order
            [of KeyUp "\<lambda>msg. write_log ''third''" two_observers KeyDown]
          handlers_run_in_registration_order
            [of KeyUp "\<lambda>msg. write_log ''third''"
                "send_message key_down_5 (send_message key_up_5
                   (send_message key_down_5 two_observers))" KeyDown]
          handlers_run_in_registration_order
            [of KeyUp "\<lambda>msg. write_log ''third''" "send_message key_up_5 two_observers" KeyDown]
    by (simp add: t run_queue_def run_in_order_def write_log_def send_message_trace calls_append)
qed

subsection \<open>The worker never returns\<close>

lemma loop_returns_only_if_die:
  "cpu_thread_loop execute_op_at_pc inbox k die d = Some r \<Longrightarrow> die"
  by (rule cpu_thread_loop.raw_induct [where P = "\<lambda>e inbox k die d r. die"])
     (simp_all split: if_splits)

text \<open>
  Claim C9. The flag \<open>die\<close> of the worker loop starts false and nothing sets it, so
  \<^verbatim>\<open>cpu_thread\<close> does not return, whatever machine cycle it runs, whatever handlers are
  registered and whatever messages arrive; the destructor, which joins the worker, does
  not return either.
\<close>

theorem cpu_thread_never_returns:
  "cpu_thread execute_op_at_pc inbox d = None \<and> destroy execute_op_at_pc inbox d = None"
proof -
  have "cpu_thread_loop execute_op_at_pc inbox 0 False d = None"
    using loop_returns_only_if_die [of execute_op_at_pc inbox 0 False d]
    by (cases "cpu_thread_loop execute_op_at_pc inbox 0 False d") auto
  then show ?thesis
    by (simp add: cpu_thread_def destroy_def)
qed

end
